theory Spec2Isabelle
  imports Main "HOL-Library.Word"
begin

unbundle bit_operations_syntax

section \<open>The hashblock exchange: state addresses and the events command line\<close>

text \<open>
  The development follows two modules of the repository: \<^verbatim>\<open>modules/address.py\<close>
  (the class \<^verbatim>\<open>Address\<close> and its subclasses, which derive state addresses from
  SHA-512 digests) and \<^verbatim>\<open>cli/sawtooth_cli/eventsset.py\<close> (candidate listing,
  voting, the genesis batch, transactions and batches).

  Python strings are modelled as \<^typ>\<open>string\<close>; a character stands for one code point
  below 256, and \<^verbatim>\<open>len\<close> is \<^const>\<open>length\<close>. A slice \<^verbatim>\<open>s[0:n]\<close> is \<^term>\<open>take n s\<close>.
  Exceptions are values of the type \<open>error\<close> below, returned on the left of a sum.
\<close>

subsection \<open>The digests of \<^verbatim>\<open>hashlib\<close>\<close>

text \<open>
  \<^verbatim>\<open>hashlib.sha256\<close> and \<^verbatim>\<open>hashlib.sha512\<close> are library functions. They are written out
  after FIPS 180-4, once for both word sizes: the message is padded to whole blocks,
  every block extends to a message schedule and runs through the rounds, and the hex
  digest prints the eight state words in lower-case hexadecimal.
  \<^verbatim>\<open>str.encode("utf-8")\<close> gives one byte for a code point below 128 and two bytes for
  the others.
\<close>

type_synonym byte = "8 word"

definition utf8_encode :: "string \<Rightarrow> byte list" where
  "utf8_encode s = concat (map (\<lambda>c. let n = (of_char c :: nat) in
       if n < 128 then [of_nat n]
       else [of_nat (192 + n div 64), of_nat (128 + n mod 64)]) s)"

fun be_bytes :: "nat \<Rightarrow> nat \<Rightarrow> byte list" where
  "be_bytes 0 v = []"
| "be_bytes (Suc n) v = be_bytes n (v div 256) @ [of_nat (v mod 256)]"

definition be_word :: "byte list \<Rightarrow> 'a::len word" where
  "be_word bs = foldl (\<lambda>acc b. push_bit 8 acc OR ucast b) 0 bs"

function chunks :: "nat \<Rightarrow> 'a list \<Rightarrow> 'a list list" where
  "chunks n xs = (if n = 0 \<or> xs = [] then [] else take n xs # chunks n (drop n xs))"
  by pat_completeness auto
termination
  by (relation "measure (\<lambda>(n, xs). length xs)") auto

definition sha_pad :: "nat \<Rightarrow> nat \<Rightarrow> byte list \<Rightarrow> byte list" where
  "sha_pad B L m = m @ [0x80] @ replicate ((B - (length m + 1 + L) mod B) mod B) 0
                     @ be_bytes L (8 * length m)"

definition ch :: "'a::len word \<Rightarrow> 'a word \<Rightarrow> 'a word \<Rightarrow> 'a word" where
  "ch x y z = (x AND y) XOR (NOT x AND z)"

definition maj :: "'a::len word \<Rightarrow> 'a word \<Rightarrow> 'a word \<Rightarrow> 'a word" where
  "maj x y z = (x AND y) XOR (x AND z) XOR (y AND z)"

type_synonym 'w sha_state = "'w \<times> 'w \<times> 'w \<times> 'w \<times> 'w \<times> 'w \<times> 'w \<times> 'w"

record 'w sha_params =
  big_sigma0 :: "'w \<Rightarrow> 'w"
  big_sigma1 :: "'w \<Rightarrow> 'w"
  small_sigma0 :: "'w \<Rightarrow> 'w"
  small_sigma1 :: "'w \<Rightarrow> 'w"
  round_constants :: "'w list"
  initial_hash :: "'w sha_state"

fun schedule :: "'a::len word sha_params \<Rightarrow> nat \<Rightarrow> 'a word list \<Rightarrow> 'a word list" where
  "schedule p 0 ws = ws"
| "schedule p (Suc n) ws =
     schedule p n (ws @ [small_sigma1 p (ws ! (length ws - 2)) + ws ! (length ws - 7)
                         + small_sigma0 p (ws ! (length ws - 15)) + ws ! (length ws - 16)])"

fun sha_round :: "'a::len word sha_params \<Rightarrow> 'a word sha_state \<Rightarrow> 'a word \<times> 'a word \<Rightarrow> 'a word sha_state" where
  "sha_round p (a, b, c, d, e, f, g, h) (k, w) =
     (let t1 = h + big_sigma1 p e + ch e f g + k + w;
          t2 = big_sigma0 p a + maj a b c
      in (t1 + t2, a, b, c, d + t1, e, f, g))"

fun state_add :: "'a::len word sha_state \<Rightarrow> 'a word sha_state \<Rightarrow> 'a word sha_state" where
  "state_add (a, b, c, d, e, f, g, h) (a', b', c', d', e', f', g', h') =
     (a + a', b + b', c + c', d + d', e + e', f + f', g + g', h + h')"

definition sha_block :: "'a::len word sha_params \<Rightarrow> 'a word sha_state \<Rightarrow> byte list \<Rightarrow> 'a word sha_state" where
  "sha_block p H block =
     (let ws = schedule p (length (round_constants p) - 16)
                 (map be_word (chunks (LENGTH('a) div 8) block))
      in state_add H (foldl (sha_round p) H (zip (round_constants p) ws)))"

definition sha2 :: "'a::len word sha_params \<Rightarrow> byte list \<Rightarrow> 'a word sha_state" where
  "sha2 p m = foldl (sha_block p) (initial_hash p)
                (chunks (2 * LENGTH('a)) (sha_pad (2 * LENGTH('a)) (LENGTH('a) div 4) m))"

definition hex_char :: "nat \<Rightarrow> char" where
  "hex_char n = ''0123456789abcdef'' ! (n mod 16)"

fun hex_digits :: "nat \<Rightarrow> nat \<Rightarrow> string" where
  "hex_digits 0 v = []"
| "hex_digits (Suc n) v = hex_digits n (v div 16) @ [hex_char v]"

definition hex_word :: "'a::len word \<Rightarrow> string" where
  "hex_word w = hex_digits (LENGTH('a) div 4) (unat w)"

fun hexdigest :: "'a::len word sha_state \<Rightarrow> string" where
  "hexdigest (a, b, c, d, e, f, g, h) =
     hex_word a @ hex_word b @ hex_word c @ hex_word d
     @ hex_word e @ hex_word f @ hex_word g @ hex_word h"

text \<open>
  The constants of the standard are defined by what they are: the round constants are
  the first bits of the fractional parts of the cube roots of the first primes, the
  initial hash values those of the square roots of the first eight primes.
  \<open>root_bits k n b r\<close> finds the integer \<open>k\<close>-th root of \<open>n\<close> bit by bit.
\<close>

fun root_bits :: "nat \<Rightarrow> nat \<Rightarrow> nat \<Rightarrow> nat \<Rightarrow> nat" where
  "root_bits k n 0 r = r"
| "root_bits k n (Suc b) r =
     root_bits k n b (if (r + 2 ^ b) ^ k \<le> n then r + 2 ^ b else r)"

definition frac_root :: "nat \<Rightarrow> nat \<Rightarrow> nat \<Rightarrow> nat" where
  "frac_root k w p = root_bits k (p * 2 ^ (k * w)) (w + 8) 0 mod 2 ^ w"

definition is_prime :: "nat \<Rightarrow> bool" where
  "is_prime n = (1 < n \<and> list_all (\<lambda>d. 0 < n mod d) [2..<n])"

definition first_primes :: "nat \<Rightarrow> nat list" where
  "first_primes n = take n (filter is_prime [2..<410])"

definition sha256_params :: "32 word sha_params" where
  "sha256_params = \<lparr>
     big_sigma0 = (\<lambda>x. word_rotr 2 x XOR word_rotr 13 x XOR word_rotr 22 x),
     big_sigma1 = (\<lambda>x. word_rotr 6 x XOR word_rotr 11 x XOR word_rotr 25 x),
     small_sigma0 = (\<lambda>x. word_rotr 7 x XOR word_rotr 18 x XOR drop_bit 3 x),
     small_sigma1 = (\<lambda>x. word_rotr 17 x XOR word_rotr 19 x XOR drop_bit 10 x),
     round_constants = map (\<lambda>p. of_nat (frac_root 3 32 p)) (first_primes 64),
     initial_hash =
       (of_nat (frac_root 2 32 2), of_nat (frac_root 2 32 3), of_nat (frac_root 2 32 5),
        of_nat (frac_root 2 32 7), of_nat (frac_root 2 32 11), of_nat (frac_root 2 32 13),
        of_nat (frac_root 2 32 17), of_nat (frac_root 2 32 19)) \<rparr>"

definition sha512_params :: "64 word sha_params" where
  "sha512_params = \<lparr>
     big_sigma0 = (\<lambda>x. word_rotr 28 x XOR word_rotr 34 x XOR word_rotr 39 x),
     big_sigma1 = (\<lambda>x. word_rotr 14 x XOR word_rotr 18 x XOR word_rotr 41 x),
     small_sigma0 = (\<lambda>x. word_rotr 1 x XOR word_rotr 8 x XOR drop_bit 7 x),
     small_sigma1 = (\<lambda>x. word_rotr 19 x XOR word_rotr 61 x XOR drop_bit 6 x),
     round_constants = map (\<lambda>p. of_nat (frac_root 3 64 p)) (first_primes 80),
     initial_hash =
       (of_nat (frac_root 2 64 2), of_nat (frac_root 2 64 3), of_nat (frac_root 2 64 5),
        of_nat (frac_root 2 64 7), of_nat (frac_root 2 64 11), of_nat (frac_root 2 64 13),
        of_nat (frac_root 2 64 17), of_nat (frac_root 2 64 19)) \<rparr>"

definition sha256_hexdigest :: "byte list \<Rightarrow> string" where
  "sha256_hexdigest m = hexdigest (sha2 sha256_params m)"

definition sha512_hexdigest :: "byte list \<Rightarrow> string" where
  "sha512_hexdigest m = hexdigest (sha2 sha512_params m)"


subsection \<open>Errors\<close>

text \<open>
  \<^verbatim>\<open>AssetIdRange\<close> is raised by the item-address constructors, \<^verbatim>\<open>IndexError\<close> by
  Python itself on an index out of range, and \<^verbatim>\<open>CliException\<close> (with its message) by
  the command line. The message of \<^verbatim>\<open>AssetIdRange\<close>, a formatted line with the
  arguments, is left out. \<^verbatim>\<open>NameError\<close> is raised by Python when a name is read that
  the module does not bind; it carries the name.
\<close>

datatype error = AssetIdRange | IndexError | CliException string | NameError string

subsection \<open>\<^verbatim>\<open>address.py\<close>: class attributes of \<^verbatim>\<open>Address\<close>\<close>

definition hashup :: "string \<Rightarrow> string" where
  "hashup v = sha512_hexdigest (utf8_encode v)"

definition NAMESPACE :: string where "NAMESPACE = ''hashblock''"
definition FAMILY_UNIT :: string where "FAMILY_UNIT = ''unit''"
definition FAMILY_ASSET :: string where "FAMILY_ASSET = ''asset''"
definition FAMILY_MATCH :: string where "FAMILY_MATCH = ''match''"
definition FAMILY_SETTING :: string where "FAMILY_SETTING = ''setting''"
definition DIMENSION_UNIT :: string where "DIMENSION_UNIT = ''unit''"
definition DIMENSION_RESOURCE :: string where "DIMENSION_RESOURCE = ''resource''"
definition DIMENSION_UTXQ :: string where "DIMENSION_UTXQ = ''utxq''"
definition DIMENSION_MTXQ :: string where "DIMENSION_MTXQ = ''mtxq''"
definition ASSET_CANDIDATES :: string where "ASSET_CANDIDATES = ''candidates''"

definition namespace_hash :: string where
  "namespace_hash = take 6 (sha512_hexdigest (utf8_encode NAMESPACE))"

definition candidates_hash :: string where
  "candidates_hash = take 6 (sha512_hexdigest (utf8_encode ASSET_CANDIDATES))"

definition unit_asset_hash :: string where "unit_asset_hash = ''00''"
definition resource_asset_hash :: string where "resource_asset_hash = ''01''"

definition filler_hash26 :: string where
  "filler_hash26 = take 52 (sha512_hexdigest (utf8_encode ''filler''))"

definition filler_hash23 :: string where
  "filler_hash23 = take 46 filler_hash26"

subsection \<open>\<^verbatim>\<open>address.py\<close>: the objects\<close>

text \<open>
  An addresser object carries the attributes that \<^verbatim>\<open>BaseAddress.__init__\<close> sets. The
  subclasses extend it: \<^verbatim>\<open>VotingAddress\<close> by its setting and candidate addresses,
  \<^verbatim>\<open>MatchAddress\<close> by its dimension and dimension address. Methods of the base class
  take any of them (\<open>'a address_scheme\<close>).
\<close>

record address =
  family :: string
  versions :: "string list"
  family_hash :: string
  reghash :: string

record voting_address = address +
  setting_addy :: string
  candidate_addy :: string

record match_address = address +
  dimension :: string
  dimension_address :: string

definition BaseAddress_init :: "string \<Rightarrow> string list \<Rightarrow> address" where
  "BaseAddress_init fam version_list =
     \<lparr> family = fam, versions = version_list,
       family_hash = take 6 (hashup fam),
       reghash = namespace_hash @ take 6 (hashup fam) \<rparr>"

definition family_ns_hash :: "'a address_scheme \<Rightarrow> string" where
  "family_ns_hash self = reghash self"

definition ns_family :: "'a address_scheme \<Rightarrow> string" where
  "ns_family self = namespace_hash @ family_hash self"

definition settings :: "'a address_scheme \<Rightarrow> string \<Rightarrow> string" where
  "settings self stype = family_ns_hash self @ take 6 (hashup stype) @ filler_hash26"

definition setting_addresser :: address where
  "setting_addresser = BaseAddress_init ''setting'' [''0.2.0'']"

definition VotingAddress_init :: "string \<Rightarrow> string list \<Rightarrow> voting_address" where
  "VotingAddress_init fam version_list =
     address.extend (BaseAddress_init fam version_list)
       (voting_address.fields
          (settings setting_addresser fam)
          (namespace_hash @ candidates_hash
             @ family_hash (BaseAddress_init fam version_list) @ filler_hash26))"

definition MatchAddress_init :: "string \<Rightarrow> string list \<Rightarrow> match_address" where
  "MatchAddress_init dim version_list =
     address.extend (BaseAddress_init ''match'' version_list)
       (match_address.fields dim
          (family_ns_hash (BaseAddress_init ''match'' version_list) @ [hashup dim ! 6]))"

definition unit_addresser :: voting_address where
  "unit_addresser = VotingAddress_init ''unit'' [''0.3.0'']"

definition asset_addresser :: voting_address where
  "asset_addresser = VotingAddress_init ''asset'' [''0.3.0'']"

definition match_utxq_addresser :: match_address where
  "match_utxq_addresser = MatchAddress_init ''utxq'' [''0.2.0'']"

definition match_mtxq_addresser :: match_address where
  "match_mtxq_addresser = MatchAddress_init ''mtxq'' [''0.2.0'']"

subsection \<open>\<^verbatim>\<open>address.py\<close>: validity of an address\<close>

text \<open>
  \<^verbatim>\<open>valid_address\<close> asks for a non-empty string that matches
  \<^verbatim>\<open>^[0-9a-fA-F]+$\<close> in full and has even length.
\<close>

definition is_hex :: "char \<Rightarrow> bool" where
  "is_hex c = (c \<in> set ''0123456789abcdefABCDEF'')"

definition valid_address :: "string \<Rightarrow> bool" where
  "valid_address addr =
     (if length addr \<noteq> 0 \<and> list_all is_hex addr \<and> length addr mod 2 = 0
      then True else False)"

definition valid_leaf_address :: "string \<Rightarrow> bool" where
  "valid_leaf_address addr =
     (if valid_address addr \<and> length addr = 70 then True else False)"

definition leaf_address_type :: "string \<Rightarrow> string \<Rightarrow> bool" where
  "leaf_address_type target addr =
     (if valid_leaf_address addr \<and> target = take (length target) addr
      then True else False)"

subsection \<open>\<^verbatim>\<open>address.py\<close>: asset and unit item addresses\<close>

definition asset_prefix :: "'a address_scheme \<Rightarrow> string \<Rightarrow> string" where
  "asset_prefix self dim =
     (let dim_hash = (if dim = DIMENSION_UNIT then unit_asset_hash else resource_asset_hash)
      in ns_family self @ dim_hash)"

definition asset_item_syskey :: "'a address_scheme \<Rightarrow> string \<Rightarrow> string \<Rightarrow> string \<Rightarrow> string" where
  "asset_item_syskey self dim system key =
     asset_prefix self dim @ take 6 (hashup system) @ take 6 (hashup key)"

text \<open>The identifier may be \<^verbatim>\<open>None\<close>: it is a \<^typ>\<open>string option\<close>.\<close>

definition asset_item ::
  "'a address_scheme \<Rightarrow> string \<Rightarrow> string \<Rightarrow> string \<Rightarrow> string option \<Rightarrow> error + string" where
  "asset_item self dim system key ident =
     (case ident of
        None \<Rightarrow> Inl AssetIdRange
      | Some i \<Rightarrow>
          if length i \<noteq> 44 then Inl AssetIdRange
          else Inr (asset_item_syskey self dim system key @ i))"

definition unit_address ::
  "voting_address \<Rightarrow> string \<Rightarrow> string \<Rightarrow> string option \<Rightarrow> error + string" where
  "unit_address self system key ident =
     (case ident of
        None \<Rightarrow> Inl AssetIdRange
      | Some i \<Rightarrow>
          if length i \<noteq> 44 then Inl AssetIdRange
          else Inr (family_ns_hash self @ take 8 (hashup system) @ take 6 (hashup key) @ i))"

definition asset_address ::
  "voting_address \<Rightarrow> string \<Rightarrow> string \<Rightarrow> string option \<Rightarrow> error + string" where
  "asset_address self system key ident =
     (case ident of
        None \<Rightarrow> Inl AssetIdRange
      | Some i \<Rightarrow>
          if length i \<noteq> 44 then Inl AssetIdRange
          else Inr (family_ns_hash self @ take 8 (hashup system) @ take 6 (hashup key) @ i))"

subsection \<open>\<^verbatim>\<open>address.py\<close>: match addresses and the status character\<close>

definition txq_dimension :: "'a address_scheme \<Rightarrow> string \<Rightarrow> string" where
  "txq_dimension self dim = ns_family self @ take 6 (hashup dim)"

definition txq_list :: "'a address_scheme \<Rightarrow> string \<Rightarrow> string \<Rightarrow> string" where
  "txq_list self dim ops = txq_dimension self dim @ take 6 (hashup ops)"

definition txq_item :: "'a address_scheme \<Rightarrow> string \<Rightarrow> string \<Rightarrow> string \<Rightarrow> string" where
  "txq_item self dim ops ident = txq_list self dim ops @ take 46 (hashup ident)"

definition match2_initiate_unmatched ::
  "'a address_scheme \<Rightarrow> string \<Rightarrow> string \<Rightarrow> string \<Rightarrow> string" where
  "match2_initiate_unmatched self dim ops ident =
     txq_list self dim ops @ ''0'' @ take 45 (hashup ident)"

text \<open>
  \<^verbatim>\<open>laddr[24] = '1'\<close> on the list of the characters raises \<^verbatim>\<open>IndexError\<close> when the
  address has no index 24; nothing else is checked.
\<close>

definition set_utxq_matched :: "'a address_scheme \<Rightarrow> string \<Rightarrow> error + string" where
  "set_utxq_matched self addr =
     (if 24 < length addr then Inr (addr[24 := CHR ''1'']) else Inl IndexError)"

definition set_utxq_unmatched :: "'a address_scheme \<Rightarrow> string \<Rightarrow> error + string" where
  "set_utxq_unmatched self addr =
     (if 24 < length addr then Inr (addr[24 := CHR ''0'']) else Inl IndexError)"

definition is_utxq_matched :: "'a address_scheme \<Rightarrow> string \<Rightarrow> error + bool" where
  "is_utxq_matched self addr =
     (if 24 < length addr then Inr (if addr ! 24 = CHR ''1'' then True else False)
      else Inl IndexError)"

subsection \<open>\<^verbatim>\<open>eventsset.py\<close>: Python's string methods\<close>

text \<open>
  \<^verbatim>\<open>s.split(sep, maxsplit=n)\<close> for a separator of one character cuts at the first
  \<open>n\<close> separators, from the left; \<^verbatim>\<open>sep.join(xs)\<close> puts the separator between the
  elements; \<^verbatim>\<open>s.startswith(p)\<close>; \<^verbatim>\<open>str(i)\<close> of an integer.
\<close>

fun split_max :: "char \<Rightarrow> nat \<Rightarrow> string \<Rightarrow> string list" where
  "split_max sep 0 s = [s]"
| "split_max sep (Suc n) s =
     (case dropWhile (\<lambda>c. c \<noteq> sep) s of
        [] \<Rightarrow> [s]
      | _ # rest \<Rightarrow> takeWhile (\<lambda>c. c \<noteq> sep) s # split_max sep n rest)"

fun join :: "string \<Rightarrow> string list \<Rightarrow> string" where
  "join sep [] = []"
| "join sep [x] = x"
| "join sep (x # y # ys) = x @ sep @ join sep (y # ys)"

definition startswith :: "string \<Rightarrow> string \<Rightarrow> bool" where
  "startswith s p = (take (length p) s = p)"



subsection \<open>\<^verbatim>\<open>eventsset.py\<close>: addresses of event keys\<close>

definition UNITS_NAMESPACE :: string where
  "UNITS_NAMESPACE = take 6 (sha512_hexdigest (utf8_encode ''events''))"

definition MAX_KEY_PARTS :: nat where "MAX_KEY_PARTS = 4"
definition ADDRESS_PART_SIZE :: nat where "ADDRESS_PART_SIZE = 16"

definition short_hash :: "string \<Rightarrow> string" where
  "short_hash in_str = take ADDRESS_PART_SIZE (sha256_hexdigest (utf8_encode in_str))"

text \<open>The key parts after the split and the padding with empty strings.\<close>

definition key_parts :: "string \<Rightarrow> string list" where
  "key_parts key =
     (let parts = split_max CHR ''.'' (MAX_KEY_PARTS - 1) key
      in parts @ replicate (MAX_KEY_PARTS - length parts) [])"

definition key_to_address :: "string \<Rightarrow> string" where
  "key_to_address key = UNITS_NAMESPACE @ concat (map short_hash (key_parts key))"

definition event_key_to_address :: "string \<Rightarrow> string" where
  "event_key_to_address key = key_to_address key"

definition config_inputs :: "string \<Rightarrow> string list" where
  "config_inputs key =
     [key_to_address ''hashblock.events.vote.proposals'',
      key_to_address ''hashblock.events.vote.authorized_keys'',
      key_to_address ''hashblock.events.vote.approval_threshold'',
      key_to_address key]"

definition config_outputs :: "string \<Rightarrow> string list" where
  "config_outputs key =
     [key_to_address ''hashblock.events.vote.proposals'',
      key_to_address key]"

subsection \<open>\<^verbatim>\<open>eventsset.py\<close>: messages, the signer and the wire format\<close>

text \<open>
  Modelled from the spec: the message classes of the generated modules
  \<^verbatim>\<open>sawtooth_cli.protobuf\<close> (\<^verbatim>\<open>EventPayload\<close>, the candidates with their proposals and
  vote records, \<^verbatim>\<open>TransactionHeader\<close>, \<^verbatim>\<open>Transaction\<close>, \<^verbatim>\<open>BatchHeader\<close>, \<^verbatim>\<open>Batch\<close>,
  \<^verbatim>\<open>BatchList\<close>), which are not among the sources. The records have the fields that
  the code reads and writes and that the data model of the specification names: a
  proposal is a code, a value and a nonce; a candidate is a proposal id, its proposal
  and the recorded votes, each with the public key of its voter; a transaction is a
  header, its signature and a payload; a batch is a header, its signature and its
  transactions.

  From \<^verbatim>\<open>events_pb2\<close> the module imports \<^verbatim>\<open>EventPayload\<close>, \<^verbatim>\<open>InitiateEvent\<close>,
  \<^verbatim>\<open>ReciprocateEvent\<close>, \<^verbatim>\<open>Quantity\<close> and \<^verbatim>\<open>Ratio\<close> only. It never binds the names
  \<^verbatim>\<open>EventProposal\<close>, \<^verbatim>\<open>EventVote\<close>, \<^verbatim>\<open>EventCandidates\<close> and \<^verbatim>\<open>Event\<close>, which four of
  its functions read: each of these reads raises \<^verbatim>\<open>NameError\<close>.
\<close>

datatype payload_action = PROPOSE | VOTE

datatype vote_id = ACCEPT | REJECT

record event_proposal =
  code :: string
  proposal_value :: string
  nonce :: string

record event_payload =
  data :: "byte list"
  action :: payload_action

record vote_record =
  public_key :: string
  recorded_vote :: vote_id

record candidate =
  proposal_id :: string
  proposal :: event_proposal
  votes :: "vote_record list"

record transaction_header =
  txn_signer_public_key :: string
  family_name :: string
  family_version :: string
  inputs :: "string list"
  outputs :: "string list"
  dependencies :: "string list"
  payload_sha512 :: string
  batcher_public_key :: string

record transaction =
  header :: "byte list"
  header_signature :: string
  payload :: "byte list"

record batch_header =
  signer_public_key :: string
  transaction_ids :: "string list"

record batch =
  batch_header_bytes :: "byte list"
  batch_header_signature :: string
  transactions :: "transaction list"

record batch_list =
  batches :: "batch list"

text \<open>
  Modelled from the spec: \<^verbatim>\<open>SerializeToString\<close> of the generated message classes, a
  fixed external contract from structured values to bytes. One serializer for each
  message class that the code can build and serialize is a parameter of the model.
\<close>

record wire =
  ser_payload :: "event_payload \<Rightarrow> byte list"
  ser_transaction_header :: "transaction_header \<Rightarrow> byte list"
  ser_batch_header :: "batch_header \<Rightarrow> byte list"

text \<open>
  The signer of \<^verbatim>\<open>sawtooth_signing\<close> is a capability: its public key in hexadecimal
  (\<^verbatim>\<open>signer.get_public_key().as_hex()\<close>) and its signature over bytes
  (\<^verbatim>\<open>signer.sign\<close>).
\<close>

record signer =
  public_key_hex :: string
  sign :: "byte list \<Rightarrow> string"

subsection \<open>\<^verbatim>\<open>eventsset.py\<close>: transactions and batches\<close>

definition make_txn :: "wire \<Rightarrow> signer \<Rightarrow> string \<Rightarrow> event_payload \<Rightarrow> transaction" where
  "make_txn w sg event_key pl =
     (let serialized_payload = ser_payload w pl;
          hdr = ser_transaction_header w
                  \<lparr> txn_signer_public_key = public_key_hex sg,
                    family_name = ''hashblock_events'',
                    family_version = ''0.1.0'',
                    inputs = config_inputs event_key,
                    outputs = config_outputs event_key,
                    dependencies = [],
                    payload_sha512 = sha512_hexdigest serialized_payload,
                    batcher_public_key = public_key_hex sg \<rparr>
      in \<lparr> header = hdr, header_signature = sign sg hdr, payload = serialized_payload \<rparr>)"


text \<open>
  \<^verbatim>\<open>_create_vote_txn\<close> reads \<^verbatim>\<open>EventVote.ACCEPT\<close> or \<^verbatim>\<open>EventVote.REJECT\<close> in the two
  branches of its first statement. The name is not bound, so either branch raises
  \<^verbatim>\<open>NameError\<close>; the statements after it are never reached.
\<close>

definition create_vote_txn ::
  "wire \<Rightarrow> signer \<Rightarrow> string \<Rightarrow> string \<Rightarrow> string \<Rightarrow> error + transaction" where
  "create_vote_txn w sg pid event_key vote_value =
     (if vote_value = ''accept''
      then Inl (NameError ''EventVote'')
      else Inl (NameError ''EventVote''))"

definition create_batch :: "wire \<Rightarrow> signer \<Rightarrow> transaction list \<Rightarrow> batch" where
  "create_batch w sg txns =
     (let txn_ids = map header_signature txns;
          bh = ser_batch_header w
                 \<lparr> signer_public_key = public_key_hex sg, transaction_ids = txn_ids \<rparr>
      in \<lparr> batch_header_bytes = bh,
           batch_header_signature = sign sg bh,
           transactions = txns \<rparr>)"

subsection \<open>\<^verbatim>\<open>eventsset.py\<close>: listing the candidates\<close>

text \<open>
  \<^verbatim>\<open>_accept\<close> computes \<^verbatim>\<open>has_pub_key\<close> first: with a non-empty public key it reads
  \<^verbatim>\<open>candidate.votes[0]\<close>, which raises \<^verbatim>\<open>IndexError\<close> on an empty list of votes. The
  prefix is tested afterwards.
\<close>

definition accept :: "candidate \<Rightarrow> string \<Rightarrow> string \<Rightarrow> error + bool" where
  "accept cand pk pfx =
     (case (if pk = [] then Inr True
            else (case votes cand of
                    [] \<Rightarrow> Inl IndexError
                  | v # _ \<Rightarrow> Inr (public_key v = pk))) of
        Inl e \<Rightarrow> Inl e
      | Inr has_pub_key \<Rightarrow>
          (let has_prefix = startswith (code (proposal cand)) pfx
           in Inr (has_prefix \<and> has_pub_key)))"

text \<open>
  The comprehension \<^verbatim>\<open>[c for c in candidates_payload.candidates if _accept(c, ...)]\<close>
  of \<^verbatim>\<open>_do_event_list\<close>: the candidates are visited in order, and an exception of
  \<^verbatim>\<open>_accept\<close> ends the listing.
\<close>

fun do_event_list_candidates :: "candidate list \<Rightarrow> string \<Rightarrow> string \<Rightarrow> error + candidate list" where
  "do_event_list_candidates [] pk pfx = Inr []"
| "do_event_list_candidates (c # cs) pk pfx =
     (case accept c pk pfx of
        Inl e \<Rightarrow> Inl e
      | Inr keep \<Rightarrow>
          (case do_event_list_candidates cs pk pfx of
             Inl e \<Rightarrow> Inl e
           | Inr rest \<Rightarrow> Inr (if keep then c # rest else rest)))"

subsection \<open>\<^verbatim>\<open>eventsset.py\<close>: casting a vote\<close>

text \<open>
  \<^verbatim>\<open>_get_proposals\<close> asks the REST client for the leaf at the address of
  \<open>hashblock.events.vote.proposals\<close> (\<open>get_leaf\<close>, from an address to the data of the
  leaf, if any) and then calls \<^verbatim>\<open>EventCandidates\<close>. The name is not bound, so the call
  raises \<^verbatim>\<open>NameError\<close>; the decoding of the leaf is never reached.
\<close>

definition get_proposals :: "(string \<Rightarrow> string option) \<Rightarrow> error + candidate list" where
  "get_proposals get_leaf =
     (let state_leaf = get_leaf (key_to_address ''hashblock.events.vote.proposals'')
      in Inl (NameError ''EventCandidates''))"

text \<open>
  \<^verbatim>\<open>_do_event_reciprocate\<close> from the proposals on (its lines after the call of
  \<^verbatim>\<open>_get_proposals\<close>): the first candidate with the given id is the proposal; a recorded
  vote with the signer's public key raises; only then the vote transaction and its
  batch are made. The result is the batch list that is sent.
\<close>

definition vote_on_proposals ::
  "wire \<Rightarrow> signer \<Rightarrow> candidate list \<Rightarrow> string \<Rightarrow> string \<Rightarrow> error + batch_list" where
  "vote_on_proposals w sg cands pid vote_value =
     (case find (\<lambda>c. proposal_id c = pid) cands of
        None \<Rightarrow> Inl (CliException ''No proposal exists with the given id'')
      | Some prop \<Rightarrow>
          if list_ex (\<lambda>vote_rec. public_key vote_rec = public_key_hex sg) (votes prop)
          then Inl (CliException ''A vote has already been recorded with this signing key'')
          else
            (case create_vote_txn w sg pid (code (proposal prop)) vote_value of
               Inl e \<Rightarrow> Inl e
             | Inr txn \<Rightarrow>
                 (let b = create_batch w sg [txn]
                  in Inr \<lparr> batches = [b] \<rparr>)))"

text \<open>
  \<^verbatim>\<open>_do_event_reciprocate\<close> as a whole, with the signer that \<^verbatim>\<open>_read_signer\<close> has
  returned: the proposals are read first.
\<close>

definition do_event_reciprocate ::
  "wire \<Rightarrow> signer \<Rightarrow> (string \<Rightarrow> string option) \<Rightarrow> string \<Rightarrow> string \<Rightarrow> error + batch_list" where
  "do_event_reciprocate w sg get_leaf pid vote_value =
     (case get_proposals get_leaf of
        Inl e \<Rightarrow> Inl e
      | Inr proposals \<Rightarrow> vote_on_proposals w sg proposals pid vote_value)"

subsection \<open>\<^verbatim>\<open>eventsset.py\<close>: the genesis batch\<close>




subsection \<open>A signer and a wire format for the instances\<close>



section \<open>Properties\<close>

subsection \<open>Hex digests have a fixed length and hexadecimal characters\<close>

lemma length_hex_digits: "length (hex_digits n v) = n"
  by (induction n arbitrary: v) simp_all

lemma is_hex_hex_char: "is_hex (hex_char n)"
proof -
  have "n mod 16 < length ''0123456789abcdef''" by simp
  then have "''0123456789abcdef'' ! (n mod 16) \<in> set ''0123456789abcdef''"
    by (rule nth_mem)
  then show ?thesis
    unfolding hex_char_def is_hex_def by auto
qed

lemma hex_digits_is_hex: "list_all is_hex (hex_digits n v)"
  by (induction n arbitrary: v) (simp_all add: is_hex_hex_char)

lemma length_hex_word: "length (hex_word (w :: 'a::len word)) = LENGTH('a) div 4"
  by (simp add: hex_word_def length_hex_digits)

lemma hex_word_is_hex: "list_all is_hex (hex_word w)"
  by (simp add: hex_word_def hex_digits_is_hex)

lemma length_hexdigest:
  "length (hexdigest (st :: 'a::len word sha_state)) = 8 * (LENGTH('a) div 4)"
  by (cases st rule: hexdigest.cases) (simp add: length_hex_word)

lemma hexdigest_is_hex: "list_all is_hex (hexdigest st)"
  by (cases st rule: hexdigest.cases) (simp add: hex_word_is_hex)

lemma length_sha512_hexdigest: "length (sha512_hexdigest m) = 128"
  by (simp add: sha512_hexdigest_def length_hexdigest)

lemma length_sha256_hexdigest: "length (sha256_hexdigest m) = 64"
  by (simp add: sha256_hexdigest_def length_hexdigest)

lemma sha512_hexdigest_is_hex: "list_all is_hex (sha512_hexdigest m)"
  by (simp add: sha512_hexdigest_def hexdigest_is_hex)

lemma sha256_hexdigest_is_hex: "list_all is_hex (sha256_hexdigest m)"
  by (simp add: sha256_hexdigest_def hexdigest_is_hex)

lemma length_hashup: "length (hashup v) = 128"
  by (simp add: hashup_def length_sha512_hexdigest)

lemma hashup_is_hex: "list_all is_hex (hashup v)"
  by (simp add: hashup_def sha512_hexdigest_is_hex)

lemma list_all_take: "list_all P xs \<Longrightarrow> list_all P (take n xs)"
  by (auto simp: list_all_iff dest: in_set_takeD)

lemma length_namespace_hash: "length namespace_hash = 6"
  by (simp add: namespace_hash_def length_sha512_hexdigest)

lemma namespace_hash_is_hex: "list_all is_hex namespace_hash"
  by (simp add: namespace_hash_def list_all_take sha512_hexdigest_is_hex)

lemma family_hash_BaseAddress_init: "family_hash (BaseAddress_init fam vl) = take 6 (hashup fam)"
  by (simp add: BaseAddress_init_def)

lemma family_hash_MatchAddress_init: "family_hash (MatchAddress_init d vl) = take 6 (hashup ''match'')"
  by (simp add: MatchAddress_init_def BaseAddress_init_def address.extend_def)

lemma family_hash_VotingAddress_init: "family_hash (VotingAddress_init fam vl) = take 6 (hashup fam)"
  by (simp add: VotingAddress_init_def BaseAddress_init_def address.extend_def)

lemma reghash_VotingAddress_init:
  "reghash (VotingAddress_init fam vl) = namespace_hash @ take 6 (hashup fam)"
  by (simp add: VotingAddress_init_def BaseAddress_init_def address.extend_def)

lemma reghash_MatchAddress_init:
  "reghash (MatchAddress_init d vl) = namespace_hash @ take 6 (hashup ''match'')"
  by (simp add: MatchAddress_init_def BaseAddress_init_def address.extend_def)

lemma length_txq_list:
  "length (family_hash self) = 6 \<Longrightarrow> length (txq_list self dim ops) = 24"
  by (simp add: txq_list_def txq_dimension_def ns_family_def length_namespace_hash length_hashup)

lemma txq_list_is_hex:
  "list_all is_hex (family_hash self) \<Longrightarrow> list_all is_hex (txq_list self dim ops)"
  by (simp add: txq_list_def txq_dimension_def ns_family_def namespace_hash_is_hex
      list_all_take hashup_is_hex)

subsection \<open>The address of an unmatched match item\<close>

text \<open>
  Claim C2. For every dimension, operation verb and identifier, the address that
  \<^verbatim>\<open>match2_initiate_unmatched\<close> builds on a match addresser is the match-list prefix
  (\<^verbatim>\<open>txq_list\<close> of the dimension and the verb), followed by the character \<open>0\<close> and
  the first 45 characters of the SHA-512 hex digest of the identifier. The prefix has
  24 characters, the address has 70 characters, and its status character is at
  offset 24.
\<close>

theorem match2_initiate_unmatched_layout:
  "match2_initiate_unmatched (MatchAddress_init d vl) dim ops ident
     = txq_list (MatchAddress_init d vl) dim ops @ ''0''
         @ take 45 (sha512_hexdigest (utf8_encode ident))
   \<and> length (txq_list (MatchAddress_init d vl) dim ops) = 24
   \<and> length (match2_initiate_unmatched (MatchAddress_init d vl) dim ops ident) = 70
   \<and> match2_initiate_unmatched (MatchAddress_init d vl) dim ops ident ! 24 = CHR ''0''"
proof -
  let ?self = "MatchAddress_init d vl"
  have len: "length (txq_list ?self dim ops) = 24"
    by (rule length_txq_list) (simp add: family_hash_MatchAddress_init length_hashup)
  have eq: "match2_initiate_unmatched ?self dim ops ident
     = txq_list ?self dim ops @ ''0'' @ take 45 (sha512_hexdigest (utf8_encode ident))"
    by (simp add: match2_initiate_unmatched_def hashup_def)
  have l70: "length (match2_initiate_unmatched ?self dim ops ident) = 70"
    by (simp add: match2_initiate_unmatched_def len length_hashup)
  have st: "match2_initiate_unmatched ?self dim ops ident ! 24 = CHR ''0''"
    using len by (simp add: match2_initiate_unmatched_def nth_append)
  from eq len l70 st show ?thesis by blast
qed

subsection \<open>Item addresses and the length of the identifier\<close>

lemma length_voting_reghash: "length (reghash (VotingAddress_init fam vl)) = 12"
  by (simp add: reghash_VotingAddress_init length_namespace_hash length_hashup)

lemma length_asset_item_syskey:
  "length (family_hash self) = 6 \<Longrightarrow> length (asset_item_syskey self dim system key) = 26"
  by (simp add: asset_item_syskey_def asset_prefix_def ns_family_def length_namespace_hash
      length_hashup unit_asset_hash_def resource_asset_hash_def Let_def)

text \<open>
  Claim C3, as amended. On a voting addresser (the unit and the asset addresser are
  such), \<^verbatim>\<open>asset_item\<close>, \<^verbatim>\<open>unit_address\<close> and \<^verbatim>\<open>asset_address\<close> raise
  \<^verbatim>\<open>AssetIdRange\<close> exactly when the identifier is \<^verbatim>\<open>None\<close> or its length is not 44;
  the characters of the identifier are not examined. For every identifier of length
  44 they return an address of 70 characters that ends with the identifier.
\<close>

theorem item_address_ident_check:
  "((asset_item (VotingAddress_init fam vl) dim system key ident = Inl AssetIdRange)
      = (case ident of None \<Rightarrow> True | Some i \<Rightarrow> length i \<noteq> 44))
   \<and> ((unit_address (VotingAddress_init fam vl) system key ident = Inl AssetIdRange)
      = (case ident of None \<Rightarrow> True | Some i \<Rightarrow> length i \<noteq> 44))
   \<and> ((asset_address (VotingAddress_init fam vl) system key ident = Inl AssetIdRange)
      = (case ident of None \<Rightarrow> True | Some i \<Rightarrow> length i \<noteq> 44))
   \<and> (length i = 44 \<longrightarrow>
        (\<exists>a. asset_item (VotingAddress_init fam vl) dim system key (Some i) = Inr a
               \<and> length a = 70 \<and> drop 26 a = i)
      \<and> (\<exists>a. unit_address (VotingAddress_init fam vl) system key (Some i) = Inr a
               \<and> length a = 70 \<and> drop 26 a = i)
      \<and> (\<exists>a. asset_address (VotingAddress_init fam vl) system key (Some i) = Inr a
               \<and> length a = 70 \<and> drop 26 a = i))"
proof -
  let ?self = "VotingAddress_init fam vl"
  have fh: "length (family_hash ?self) = 6"
    by (simp add: family_hash_VotingAddress_init length_hashup)
  have a1: "(asset_item ?self dim system key ident = Inl AssetIdRange)
      = (case ident of None \<Rightarrow> True | Some i \<Rightarrow> length i \<noteq> 44)"
    by (simp add: asset_item_def split: option.split)
  have a2: "(unit_address ?self system key ident = Inl AssetIdRange)
      = (case ident of None \<Rightarrow> True | Some i \<Rightarrow> length i \<noteq> 44)"
    by (simp add: unit_address_def split: option.split)
  have a3: "(asset_address ?self system key ident = Inl AssetIdRange)
      = (case ident of None \<Rightarrow> True | Some i \<Rightarrow> length i \<noteq> 44)"
    by (simp add: asset_address_def split: option.split)
  have b1: "\<exists>a. asset_item ?self dim system key (Some i) = Inr a
               \<and> length a = 70 \<and> drop 26 a = i" if "length i = 44"
    using that length_asset_item_syskey [OF fh, of dim system key]
    by (simp add: asset_item_def)
  have b2: "\<exists>a. unit_address ?self system key (Some i) = Inr a
               \<and> length a = 70 \<and> drop 26 a = i" if "length i = 44"
    using that length_voting_reghash [of fam vl]
    by (simp add: unit_address_def family_ns_hash_def length_hashup)
  have b3: "\<exists>a. asset_address ?self system key (Some i) = Inr a
               \<and> length a = 70 \<and> drop 26 a = i" if "length i = 44"
    using that length_voting_reghash [of fam vl]
    by (simp add: asset_address_def family_ns_hash_def length_hashup)
  from a1 a2 a3 b1 b2 b3 show ?thesis by blast
qed

text \<open>
  The theorem at the asset and the unit addresser, with an identifier of 44
  hexadecimal characters, with no identifier and with a short one.
\<close>

theorem item_address_ident_check_witness:
  "length ''0123456789abcdef0123456789abcdef0123456789ab'' = 44
   \<and> (\<exists>a. asset_item asset_addresser ''unit'' ''imperial'' ''foot''
             (Some ''0123456789abcdef0123456789abcdef0123456789ab'') = Inr a
          \<and> length a = 70 \<and> drop 26 a = ''0123456789abcdef0123456789abcdef0123456789ab'')
   \<and> (\<exists>a. unit_address unit_addresser ''imperial'' ''foot''
             (Some ''0123456789abcdef0123456789abcdef0123456789ab'') = Inr a
          \<and> length a = 70 \<and> drop 26 a = ''0123456789abcdef0123456789abcdef0123456789ab'')
   \<and> asset_address asset_addresser ''imperial'' ''foot'' None = Inl AssetIdRange
   \<and> unit_address unit_addresser ''imperial'' ''foot'' (Some ''0123'') = Inl AssetIdRange"
proof -
  have len: "length ''0123456789abcdef0123456789abcdef0123456789ab'' = 44" by simp
  note a = item_address_ident_check [of "''asset''" "[''0.3.0'']" "''unit''" "''imperial''" "''foot''"
      "Some ''0123456789abcdef0123456789abcdef0123456789ab''"
      "''0123456789abcdef0123456789abcdef0123456789ab''"]
  note u = item_address_ident_check [of "''unit''" "[''0.3.0'']" "''unit''" "''imperial''" "''foot''"
      "Some ''0123''" "''0123456789abcdef0123456789abcdef0123456789ab''"]
  note n = item_address_ident_check [of "''asset''" "[''0.3.0'']" "''unit''" "''imperial''" "''foot''"
      None "''0123456789abcdef0123456789abcdef0123456789ab''"]
  have 1: "\<exists>a. asset_item asset_addresser ''unit'' ''imperial'' ''foot''
             (Some ''0123456789abcdef0123456789abcdef0123456789ab'') = Inr a
          \<and> length a = 70 \<and> drop 26 a = ''0123456789abcdef0123456789abcdef0123456789ab''"
    using a len unfolding asset_addresser_def by blast
  have 2: "\<exists>a. unit_address unit_addresser ''imperial'' ''foot''
             (Some ''0123456789abcdef0123456789abcdef0123456789ab'') = Inr a
          \<and> length a = 70 \<and> drop 26 a = ''0123456789abcdef0123456789abcdef0123456789ab''"
    using u len unfolding unit_addresser_def by blast
  have 3: "asset_address asset_addresser ''imperial'' ''foot'' None = Inl AssetIdRange"
    using n unfolding asset_addresser_def by simp
  have 4: "unit_address unit_addresser ''imperial'' ''foot'' (Some ''0123'') = Inl AssetIdRange"
    using u unfolding unit_addresser_def by simp
  from len 1 2 3 4 show ?thesis by blast
qed

text \<open>
  The claim as first stated asks for a failure whenever the identifier is not 44
  hexadecimal characters. An identifier of 44 letters \<open>z\<close> is not hexadecimal, and
  none of the three constructors raises.
\<close>

theorem item_address_non_hex_counterexample:
  "\<not> list_all is_hex ''zzzzzzzzzzzzzzzzzzzzzzzzzzzzzzzzzzzzzzzzzzzz''
   \<and> length ''zzzzzzzzzzzzzzzzzzzzzzzzzzzzzzzzzzzzzzzzzzzz'' = 44
   \<and> asset_item asset_addresser ''unit'' ''imperial'' ''foot''
        (Some ''zzzzzzzzzzzzzzzzzzzzzzzzzzzzzzzzzzzzzzzzzzzz'') \<noteq> Inl AssetIdRange
   \<and> unit_address unit_addresser ''imperial'' ''foot''
        (Some ''zzzzzzzzzzzzzzzzzzzzzzzzzzzzzzzzzzzzzzzzzzzz'') \<noteq> Inl AssetIdRange
   \<and> asset_address asset_addresser ''imperial'' ''foot''
        (Some ''zzzzzzzzzzzzzzzzzzzzzzzzzzzzzzzzzzzzzzzzzzzz'') \<noteq> Inl AssetIdRange"
  by (simp add: asset_item_def unit_address_def asset_address_def is_hex_def)

subsection \<open>Facts about lists and the unmatched address\<close>

lemma list_update_24: "24 < length addr \<Longrightarrow> addr[24 := c] = take 24 addr @ [c] @ drop 25 addr"
  by (simp add: upd_conv_take_nth_drop)

lemma valid_leaf_address_length: "valid_leaf_address addr \<Longrightarrow> length addr = 70"
  by (simp add: valid_leaf_address_def split: if_splits)

lemma list_all_update: "list_all P xs \<Longrightarrow> P x \<Longrightarrow> list_all P (xs[i := x])"
  by (induction xs arbitrary: i) (simp_all split: nat.split)

lemma is_hex_digit01: "is_hex CHR ''0''" "is_hex CHR ''1''"
  by (simp_all add: is_hex_def)

lemma match2_initiate_unmatched_is_hex:
  "list_all is_hex (match2_initiate_unmatched (MatchAddress_init d vl) dim ops ident)"
  by (simp add: match2_initiate_unmatched_def txq_list_is_hex family_hash_MatchAddress_init
      list_all_take hashup_is_hex is_hex_digit01)

lemma length_match2_initiate_unmatched:
  "length (match2_initiate_unmatched (MatchAddress_init d vl) dim ops ident) = 70"
  by (simp add: match2_initiate_unmatched_def length_txq_list family_hash_MatchAddress_init
      length_hashup)

lemma match2_initiate_unmatched_prefix:
  "take 12 (match2_initiate_unmatched (MatchAddress_init d vl) dim ops ident)
     = family_ns_hash (MatchAddress_init d vl)"
  by (simp add: match2_initiate_unmatched_def txq_list_def txq_dimension_def ns_family_def
      family_ns_hash_def reghash_MatchAddress_init family_hash_MatchAddress_init
      length_namespace_hash length_hashup)

lemma length_match_family_ns_hash: "length (family_ns_hash (MatchAddress_init d vl)) = 12"
  by (simp add: family_ns_hash_def reghash_MatchAddress_init length_namespace_hash length_hashup)

lemma match2_initiate_unmatched_status:
  "match2_initiate_unmatched (MatchAddress_init d vl) dim ops ident ! 24 = CHR ''0''"
  by (simp add: match2_initiate_unmatched_def nth_append length_txq_list
      family_hash_MatchAddress_init length_hashup)

subsection \<open>Writing the status character\<close>

text \<open>
  Claim C5, as amended. \<^verbatim>\<open>set_utxq_matched\<close> and \<^verbatim>\<open>set_utxq_unmatched\<close> raise
  \<^verbatim>\<open>IndexError\<close> exactly when the address has fewer than 25 characters; the address is
  not validated otherwise. On every address of at least 25 characters, and so on every
  valid leaf address of 70 characters, they return the address with the character at
  offset 24 replaced by \<open>1\<close> (matched) or \<open>0\<close> (unmatched) and all else unchanged.
\<close>

theorem set_utxq_status_char:
  "(length addr < 25 \<longrightarrow>
        set_utxq_matched self addr = Inl IndexError
      \<and> set_utxq_unmatched self addr = Inl IndexError)
   \<and> (25 \<le> length addr \<longrightarrow>
        set_utxq_matched self addr = Inr (take 24 addr @ ''1'' @ drop 25 addr)
      \<and> set_utxq_unmatched self addr = Inr (take 24 addr @ ''0'' @ drop 25 addr))
   \<and> (valid_leaf_address addr \<longrightarrow>
        set_utxq_matched self addr = Inr (take 24 addr @ ''1'' @ drop 25 addr)
      \<and> set_utxq_unmatched self addr = Inr (take 24 addr @ ''0'' @ drop 25 addr))"
proof -
  have short: "set_utxq_matched self addr = Inl IndexError
      \<and> set_utxq_unmatched self addr = Inl IndexError" if "length addr < 25"
    using that by (simp add: set_utxq_matched_def set_utxq_unmatched_def)
  have long: "set_utxq_matched self addr = Inr (take 24 addr @ ''1'' @ drop 25 addr)
      \<and> set_utxq_unmatched self addr = Inr (take 24 addr @ ''0'' @ drop 25 addr)"
    if "25 \<le> length addr"
    using that by (simp add: set_utxq_matched_def set_utxq_unmatched_def list_update_24)
  have "25 \<le> length addr" if "valid_leaf_address addr"
    using valid_leaf_address_length [OF that] by simp
  with short long show ?thesis by blast
qed

text \<open>
  The theorem at the unmatched address of dimension \<open>utxq\<close>, verb \<open>ask\<close> and
  identifier \<open>ID\<close>, and at its prefix of 24 characters.
\<close>

theorem set_utxq_status_char_witness:
  "valid_leaf_address ''957682cc7a07c026596ee6430aa572e3507d24b4152af45d29538f818e3d3815b46c73''
   \<and> set_utxq_matched match_utxq_addresser
        ''957682cc7a07c026596ee6430aa572e3507d24b4152af45d29538f818e3d3815b46c73''
      = Inr ''957682cc7a07c026596ee6431aa572e3507d24b4152af45d29538f818e3d3815b46c73''
   \<and> set_utxq_unmatched match_utxq_addresser
        ''957682cc7a07c026596ee6430aa572e3507d24b4152af45d29538f818e3d3815b46c73''
      = Inr ''957682cc7a07c026596ee6430aa572e3507d24b4152af45d29538f818e3d3815b46c73''
   \<and> set_utxq_matched match_utxq_addresser ''957682cc7a07c026596ee643'' = Inl IndexError
   \<and> set_utxq_unmatched match_utxq_addresser ''957682cc7a07c026596ee643'' = Inl IndexError"
proof -
  have v: "valid_leaf_address
      ''957682cc7a07c026596ee6430aa572e3507d24b4152af45d29538f818e3d3815b46c73''"
    by (simp add: valid_leaf_address_def valid_address_def is_hex_def)
  have s: "length ''957682cc7a07c026596ee643'' < 25" by simp
  from v s
    set_utxq_status_char [of "''957682cc7a07c026596ee6430aa572e3507d24b4152af45d29538f818e3d3815b46c73''"
      match_utxq_addresser]
    set_utxq_status_char [of "''957682cc7a07c026596ee643''" match_utxq_addresser]
  show ?thesis by simp
qed

text \<open>
  The claim as first stated asks for a failure on every input that is not a valid leaf
  address. A string of 25 letters \<open>z\<close> is no valid address, and both functions
  return.
\<close>

theorem set_utxq_unchecked_counterexample:
  "\<not> valid_leaf_address ''zzzzzzzzzzzzzzzzzzzzzzzzz''
   \<and> set_utxq_matched match_utxq_addresser ''zzzzzzzzzzzzzzzzzzzzzzzzz''
       = Inr ''zzzzzzzzzzzzzzzzzzzzzzzz1''
   \<and> set_utxq_unmatched match_utxq_addresser ''zzzzzzzzzzzzzzzzzzzzzzzzz''
       = Inr ''zzzzzzzzzzzzzzzzzzzzzzzz0''"
  by (simp add: valid_leaf_address_def valid_address_def set_utxq_matched_def
      set_utxq_unmatched_def)

subsection \<open>Matched and back\<close>

text \<open>
  Claim C4, as amended. On every valid leaf address of 70 characters,
  \<^verbatim>\<open>set_utxq_matched\<close> followed by \<^verbatim>\<open>set_utxq_unmatched\<close> returns the address with
  \<open>0\<close> at index 24: this is the original address exactly when the original has
  \<open>0\<close> there (an unmatched address). Running the pair again on the result returns the
  same result, and each of the two updates keeps the length and every character other
  than the one at index 24.
\<close>

theorem flip_round_trip:
  assumes "valid_leaf_address addr"
  shows "set_utxq_matched self addr = Inr (addr[24 := CHR ''1''])
   \<and> set_utxq_unmatched self (addr[24 := CHR ''1'']) = Inr (addr[24 := CHR ''0''])
   \<and> ((addr[24 := CHR ''0''] = addr) = (addr ! 24 = CHR ''0''))
   \<and> set_utxq_matched self (addr[24 := CHR ''0'']) = Inr (addr[24 := CHR ''1''])
   \<and> length (addr[24 := c]) = 70
   \<and> (addr[24 := c]) ! 24 = c
   \<and> (\<forall>i. i \<noteq> 24 \<longrightarrow> (addr[24 := c]) ! i = addr ! i)"
proof -
  have len: "length addr = 70"
    using assms by (rule valid_leaf_address_length)
  have 1: "set_utxq_matched self addr = Inr (addr[24 := CHR ''1''])"
    using len by (simp add: set_utxq_matched_def)
  have 2: "set_utxq_unmatched self (addr[24 := CHR ''1'']) = Inr (addr[24 := CHR ''0''])"
    using len by (simp add: set_utxq_unmatched_def)
  have 3: "(addr[24 := CHR ''0''] = addr) = (addr ! 24 = CHR ''0'')"
    using len by (simp add: list_update_same_conv)
  have 4: "set_utxq_matched self (addr[24 := CHR ''0'']) = Inr (addr[24 := CHR ''1''])"
    using len by (simp add: set_utxq_matched_def)
  have 5: "length (addr[24 := c]) = 70" "(addr[24 := c]) ! 24 = c"
    using len by simp_all
  have 6: "\<forall>i. i \<noteq> 24 \<longrightarrow> (addr[24 := c]) ! i = addr ! i"
    by simp
  from 1 2 3 4 5 6 show ?thesis by blast
qed

text \<open>The theorem at the unmatched address of \<open>utxq\<close>, \<open>ask\<close> and \<open>ID\<close>.\<close>

theorem flip_round_trip_witness:
  "valid_leaf_address ''957682cc7a07c026596ee6430aa572e3507d24b4152af45d29538f818e3d3815b46c73''
   \<and> set_utxq_matched match_utxq_addresser
        ''957682cc7a07c026596ee6430aa572e3507d24b4152af45d29538f818e3d3815b46c73''
      = Inr ''957682cc7a07c026596ee6431aa572e3507d24b4152af45d29538f818e3d3815b46c73''
   \<and> set_utxq_unmatched match_utxq_addresser
        ''957682cc7a07c026596ee6431aa572e3507d24b4152af45d29538f818e3d3815b46c73''
      = Inr ''957682cc7a07c026596ee6430aa572e3507d24b4152af45d29538f818e3d3815b46c73''"
proof -
  have v: "valid_leaf_address
      ''957682cc7a07c026596ee6430aa572e3507d24b4152af45d29538f818e3d3815b46c73''"
    by (simp add: valid_leaf_address_def valid_address_def is_hex_def)
  from v flip_round_trip [OF v, of match_utxq_addresser "CHR ''0''"]
  show ?thesis by simp
qed

text \<open>
  The claim as first stated promises the original address for every valid leaf address
  of the match family. The matched address of \<open>utxq\<close>, \<open>ask\<close> and \<open>ID\<close> is such an
  address (as a literal, and as built by the addresser), and the pair returns the
  unmatched address instead.
\<close>

theorem flip_round_trip_counterexample:
  "valid_leaf_address ''957682cc7a07c026596ee6431aa572e3507d24b4152af45d29538f818e3d3815b46c73''
   \<and> set_utxq_matched match_utxq_addresser
        ''957682cc7a07c026596ee6431aa572e3507d24b4152af45d29538f818e3d3815b46c73''
      = Inr ''957682cc7a07c026596ee6431aa572e3507d24b4152af45d29538f818e3d3815b46c73''
   \<and> set_utxq_unmatched match_utxq_addresser
        ''957682cc7a07c026596ee6431aa572e3507d24b4152af45d29538f818e3d3815b46c73''
      = Inr ''957682cc7a07c026596ee6430aa572e3507d24b4152af45d29538f818e3d3815b46c73''
   \<and> ''957682cc7a07c026596ee6430aa572e3507d24b4152af45d29538f818e3d3815b46c73''
      \<noteq> ''957682cc7a07c026596ee6431aa572e3507d24b4152af45d29538f818e3d3815b46c73''
   \<and> leaf_address_type (family_ns_hash match_utxq_addresser)
        ((match2_initiate_unmatched match_utxq_addresser ''utxq'' ''ask'' ''ID'')[24 := CHR ''1''])
   \<and> set_utxq_matched match_utxq_addresser
        ((match2_initiate_unmatched match_utxq_addresser ''utxq'' ''ask'' ''ID'')[24 := CHR ''1''])
      = Inr ((match2_initiate_unmatched match_utxq_addresser ''utxq'' ''ask'' ''ID'')[24 := CHR ''1''])
   \<and> set_utxq_unmatched match_utxq_addresser
        ((match2_initiate_unmatched match_utxq_addresser ''utxq'' ''ask'' ''ID'')[24 := CHR ''1''])
      = Inr (match2_initiate_unmatched match_utxq_addresser ''utxq'' ''ask'' ''ID'')
   \<and> match2_initiate_unmatched match_utxq_addresser ''utxq'' ''ask'' ''ID''
      \<noteq> (match2_initiate_unmatched match_utxq_addresser ''utxq'' ''ask'' ''ID'')[24 := CHR ''1'']"
proof -
  let ?L = "''957682cc7a07c026596ee6431aa572e3507d24b4152af45d29538f818e3d3815b46c73''"
  let ?A = "match2_initiate_unmatched match_utxq_addresser ''utxq'' ''ask'' ''ID''"
  have l1: "valid_leaf_address ?L"
    by (simp add: valid_leaf_address_def valid_address_def is_hex_def)
  have l2: "set_utxq_matched match_utxq_addresser ?L = Inr ?L"
    by (simp add: set_utxq_matched_def)
  have l3: "set_utxq_unmatched match_utxq_addresser ?L
      = Inr ''957682cc7a07c026596ee6430aa572e3507d24b4152af45d29538f818e3d3815b46c73''"
    by (simp add: set_utxq_unmatched_def)
  have l4: "''957682cc7a07c026596ee6430aa572e3507d24b4152af45d29538f818e3d3815b46c73'' \<noteq> ?L"
    by simp
  have len: "length ?A = 70"
    unfolding match_utxq_addresser_def by (rule length_match2_initiate_unmatched)
  have hex: "list_all is_hex (?A[24 := CHR ''1''])"
    unfolding match_utxq_addresser_def
    by (intro list_all_update match2_initiate_unmatched_is_hex is_hex_digit01)
  have pre: "take 12 (?A[24 := CHR ''1'']) = family_ns_hash match_utxq_addresser"
    unfolding match_utxq_addresser_def
    by (simp add: match2_initiate_unmatched_prefix)
  have a1: "leaf_address_type (family_ns_hash match_utxq_addresser) (?A[24 := CHR ''1''])"
    using len hex pre length_match_family_ns_hash [of "''utxq''" "[''0.2.0'']"]
    by (simp add: leaf_address_type_def valid_leaf_address_def valid_address_def
        match_utxq_addresser_def)
  have a2: "set_utxq_matched match_utxq_addresser (?A[24 := CHR ''1'']) = Inr (?A[24 := CHR ''1''])"
    using len by (simp add: set_utxq_matched_def)
  have st: "?A ! 24 = CHR ''0''"
    using match2_initiate_unmatched_status [of "''utxq''" "[''0.2.0'']" "''utxq''" "''ask''" "''ID''"]
    by (simp add: match_utxq_addresser_def)
  have a3: "set_utxq_unmatched match_utxq_addresser (?A[24 := CHR ''1'']) = Inr ?A"
    using len st by (simp add: set_utxq_unmatched_def list_update_same_conv)
  have a4: "?A \<noteq> ?A[24 := CHR ''1'']"
  proof
    assume "?A = ?A[24 := CHR ''1'']"
    then have "?A ! 24 = (?A[24 := CHR ''1'']) ! 24" by simp
    with len st show False by simp
  qed
  from l1 l2 l3 l4 a1 a2 a3 a4 show ?thesis by blast
qed

subsection \<open>The address of an event key\<close>

lemma length_split_max: "length (split_max sep n s) \<le> Suc n"
  by (induction n arbitrary: s) (auto split: list.split)

lemma split_max_not_Nil: "split_max sep n s \<noteq> []"
  by (cases n) (auto split: list.split)

lemma join_Cons: "ys \<noteq> [] \<Longrightarrow> join sep (x # ys) = x @ sep @ join sep ys"
  by (cases ys) simp_all

lemma split_max_Suc_Nil:
  "dropWhile (\<lambda>c. c \<noteq> sep) s = [] \<Longrightarrow> split_max sep (Suc n) s = [s]"
  by (simp only: split_max.simps list.case)

lemma split_max_Suc_Cons:
  "dropWhile (\<lambda>c. c \<noteq> sep) s = c # rest
     \<Longrightarrow> split_max sep (Suc n) s = takeWhile (\<lambda>c. c \<noteq> sep) s # split_max sep n rest"
  by (simp only: split_max.simps list.case)

lemma dropWhile_Cons_sep:
  assumes "dropWhile (\<lambda>c. c \<noteq> sep) s = c # rest"
  shows "c = sep" and "s = takeWhile (\<lambda>c. c \<noteq> sep) s @ sep # rest"
proof -
  have "dropWhile (\<lambda>c. c \<noteq> sep) s \<noteq> []"
    by (simp only: assms list.distinct not_False_eq_True)
  then have "\<not> hd (dropWhile (\<lambda>c. c \<noteq> sep) s) \<noteq> sep"
    by (rule hd_dropWhile)
  then show c: "c = sep"
    by (simp only: assms list.sel not_not)
  have "takeWhile (\<lambda>c. c \<noteq> sep) s @ dropWhile (\<lambda>c. c \<noteq> sep) s = s"
    by (rule takeWhile_dropWhile_id)
  then show "s = takeWhile (\<lambda>c. c \<noteq> sep) s @ sep # rest"
    by (simp only: assms c)
qed


lemma join_split_max: "join [sep] (split_max sep n s) = s"
proof (induction n arbitrary: s)
  case 0
  show ?case by simp
next
  case (Suc n)
  show ?case
  proof (cases "dropWhile (\<lambda>c. c \<noteq> sep) s")
    case Nil
    show ?thesis
      unfolding split_max_Suc_Nil [OF Nil] by simp
  next
    case (Cons c rest)
    note s = dropWhile_Cons_sep(2) [OF Cons]
    have "join [sep] (split_max sep (Suc n) s)
        = takeWhile (\<lambda>c. c \<noteq> sep) s @ [sep] @ join [sep] (split_max sep n rest)"
      unfolding split_max_Suc_Cons [OF Cons] by (rule join_Cons) (rule split_max_not_Nil)
    also have "\<dots> = takeWhile (\<lambda>c. c \<noteq> sep) s @ sep # rest"
      unfolding Suc.IH by simp
    also have "\<dots> = s"
      by (rule s [symmetric])
    finally show ?thesis .
  qed
qed

lemma split_max_butlast_no_sep:
  "list_all (\<lambda>p. sep \<notin> set p) (butlast (split_max sep n s))"
proof (induction n arbitrary: s)
  case 0
  show ?case by simp
next
  case (Suc n)
  show ?case
  proof (cases "dropWhile (\<lambda>c. c \<noteq> sep) s")
    case Nil
    show ?thesis
      unfolding split_max_Suc_Nil [OF Nil] by simp
  next
    case (Cons c rest)
    have t: "sep \<notin> set (takeWhile (\<lambda>c. c \<noteq> sep) s)"
      by (auto dest: set_takeWhileD)
    show ?thesis
      unfolding split_max_Suc_Cons [OF Cons]
      using t Suc.IH [of rest] by (simp add: split_max_not_Nil)
  qed
qed

lemma split_max_short_last_no_sep:
  "length (split_max sep n s) < Suc n \<Longrightarrow> sep \<notin> set (last (split_max sep n s))"
proof (induction n arbitrary: s)
  case 0
  then show ?case by simp
next
  case (Suc n)
  show ?case
  proof (cases "dropWhile (\<lambda>c. c \<noteq> sep) s")
    case Nil
    have "takeWhile (\<lambda>c. c \<noteq> sep) s @ dropWhile (\<lambda>c. c \<noteq> sep) s = s"
      by (rule takeWhile_dropWhile_id)
    then have "takeWhile (\<lambda>c. c \<noteq> sep) s = s"
      unfolding Nil by simp
    then have "sep \<notin> set s"
      by (metis (mono_tags, lifting) set_takeWhileD)
    then show ?thesis
      unfolding split_max_Suc_Nil [OF Nil] by simp
  next
    case (Cons c rest)
    have "length (split_max sep n rest) < Suc n"
      using Suc.prems unfolding split_max_Suc_Cons [OF Cons] by simp
    then have "sep \<notin> set (last (split_max sep n rest))"
      by (rule Suc.IH)
    then show ?thesis
      unfolding split_max_Suc_Cons [OF Cons] by (simp add: split_max_not_Nil)
  qed
qed


lemma length_key_parts: "length (key_parts key) = 4"
  using length_split_max [of "CHR ''.''" 3 key]
  by (simp add: key_parts_def MAX_KEY_PARTS_def Let_def)

lemma length_short_hash: "length (short_hash x) = 16"
  by (simp add: short_hash_def ADDRESS_PART_SIZE_def length_sha256_hexdigest)

lemma short_hash_is_hex: "list_all is_hex (short_hash x)"
  by (simp add: short_hash_def list_all_take sha256_hexdigest_is_hex)

lemma length_concat_short_hash: "length (concat (map short_hash ps)) = 16 * length ps"
  by (induction ps) (simp_all add: length_short_hash)

lemma concat_short_hash_is_hex: "list_all is_hex (concat (map short_hash ps))"
  by (induction ps) (simp_all add: short_hash_is_hex)

lemma length_key_to_address: "length (key_to_address key) = 70"
  by (simp add: key_to_address_def UNITS_NAMESPACE_def length_sha512_hexdigest
      length_concat_short_hash length_key_parts)

lemma key_to_address_is_hex: "list_all is_hex (key_to_address key)"
  by (simp add: key_to_address_def UNITS_NAMESPACE_def list_all_take sha512_hexdigest_is_hex
      concat_short_hash_is_hex)

text \<open>
  Claim C1, as amended. For every key, \<^verbatim>\<open>_key_to_address\<close> splits the key at its
  first three dots into at most 4 parts (joined by dots the parts give the key back,
  no part but the last holds a dot, and the last holds none when there are fewer
  than 4 parts), pads the parts with empty strings to 4, and returns the namespace hash
  (the first 6 characters of the SHA-512 hex digest of \<open>events\<close>) followed, for each
  of the 4 parts, by the first 16 characters of the SHA-256 hex digest of its UTF-8
  bytes: 70 hexadecimal characters in all.
\<close>

theorem key_to_address_layout:
  "length (split_max CHR ''.'' 3 key) \<le> 4
   \<and> join ''.'' (split_max CHR ''.'' 3 key) = key
   \<and> list_all (\<lambda>p. CHR ''.'' \<notin> set p) (butlast (split_max CHR ''.'' 3 key))
   \<and> (length (split_max CHR ''.'' 3 key) < 4
        \<longrightarrow> CHR ''.'' \<notin> set (last (split_max CHR ''.'' 3 key)))
   \<and> key_parts key
       = split_max CHR ''.'' 3 key @ replicate (4 - length (split_max CHR ''.'' 3 key)) []
   \<and> length (key_parts key) = 4
   \<and> key_to_address key
       = take 6 (sha512_hexdigest (utf8_encode ''events''))
         @ concat (map (\<lambda>p. take 16 (sha256_hexdigest (utf8_encode p))) (key_parts key))
   \<and> length (key_to_address key) = 70
   \<and> valid_leaf_address (key_to_address key)"
proof -
  have 1: "length (split_max CHR ''.'' 3 key) \<le> 4"
    using length_split_max [of "CHR ''.''" 3 key] by simp
  have 2: "join ''.'' (split_max CHR ''.'' 3 key) = key"
    by (rule join_split_max)
  have 3: "list_all (\<lambda>p. CHR ''.'' \<notin> set p) (butlast (split_max CHR ''.'' 3 key))"
    by (rule split_max_butlast_no_sep)
  have 4: "CHR ''.'' \<notin> set (last (split_max CHR ''.'' 3 key))"
    if "length (split_max CHR ''.'' 3 key) < 4"
    using that split_max_short_last_no_sep [of "CHR ''.''" 3 key] by simp
  have 5: "key_parts key
       = split_max CHR ''.'' 3 key @ replicate (4 - length (split_max CHR ''.'' 3 key)) []"
    by (simp add: key_parts_def MAX_KEY_PARTS_def Let_def)
  have 6: "length (key_parts key) = 4"
    by (rule length_key_parts)
  have sh: "short_hash = (\<lambda>p. take 16 (sha256_hexdigest (utf8_encode p)))"
    by (simp add: short_hash_def ADDRESS_PART_SIZE_def fun_eq_iff)
  have 7: "key_to_address key
       = take 6 (sha512_hexdigest (utf8_encode ''events''))
         @ concat (map (\<lambda>p. take 16 (sha256_hexdigest (utf8_encode p))) (key_parts key))"
    by (simp add: key_to_address_def UNITS_NAMESPACE_def sh)
  have 8: "length (key_to_address key) = 70"
    by (rule length_key_to_address)
  have 9: "valid_leaf_address (key_to_address key)"
    by (simp add: valid_leaf_address_def valid_address_def key_to_address_is_hex
        length_key_to_address)
  from 1 2 3 4 5 6 7 8 9 show ?thesis by blast
qed

text \<open>The theorem at the key \<open>hashblock.events\<close>, which has two parts.\<close>

theorem key_to_address_layout_witness:
  "split_max CHR ''.'' 3 ''hashblock.events'' = [''hashblock'', ''events'']
   \<and> length (split_max CHR ''.'' 3 ''hashblock.events'') < 4
   \<and> CHR ''.'' \<notin> set (last (split_max CHR ''.'' 3 ''hashblock.events''))
   \<and> key_parts ''hashblock.events'' = [''hashblock'', ''events'', [], []]
   \<and> length (key_to_address ''hashblock.events'') = 70"
proof -
  note t = key_to_address_layout [of "''hashblock.events''"]
  have s: "split_max CHR ''.'' 3 ''hashblock.events'' = [''hashblock'', ''events'']"
    by (simp add: numeral_3_eq_3)
  have l: "length (split_max CHR ''.'' 3 ''hashblock.events'') < 4"
    by (simp add: s)
  have d: "CHR ''.'' \<notin> set (last (split_max CHR ''.'' 3 ''hashblock.events''))"
    using t l by blast
  have "key_parts ''hashblock.events''
      = split_max CHR ''.'' 3 ''hashblock.events''
        @ replicate (4 - length (split_max CHR ''.'' 3 ''hashblock.events'')) []"
    using t by blast
  then have k: "key_parts ''hashblock.events'' = [''hashblock'', ''events'', [], []]"
    by (simp add: s eval_nat_numeral)
  have n: "length (key_to_address ''hashblock.events'') = 70"
    using t by blast
  from s l d k n show ?thesis by blast
qed

text \<open>
  The claim as first stated gives every part 6 characters and the address 30. The
  address of \<open>hashblock.events.vote.proposals\<close> is not 30 characters long, and the
  hash of a part is not 6 characters long.
\<close>

theorem key_to_address_length_counterexample:
  "length (key_to_address ''hashblock.events.vote.proposals'') \<noteq> 30
   \<and> length (short_hash ''hashblock'') \<noteq> 6"
  by (simp add: length_key_to_address length_short_hash)

subsection \<open>The candidate listing\<close>

lemma accept_no_filter:
  "accept c [] pfx = Inr (startswith (code (proposal c)) pfx)"
  by (simp add: accept_def)

lemma accept_filter_votes:
  "pk \<noteq> [] \<Longrightarrow> votes c = v # vs
     \<Longrightarrow> accept c pk pfx = Inr (startswith (code (proposal c)) pfx \<and> public_key v = pk)"
  by (simp add: accept_def)

lemma accept_filter_no_votes:
  "pk \<noteq> [] \<Longrightarrow> votes c = [] \<Longrightarrow> accept c pk pfx = Inl IndexError"
  by (simp add: accept_def)

lemma accept_total:
  "pk = [] \<or> votes c \<noteq> [] \<Longrightarrow>
   accept c pk pfx
     = Inr (startswith (code (proposal c)) pfx
            \<and> (pk = [] \<or> (case votes c of [] \<Rightarrow> False | v # _ \<Rightarrow> public_key v = pk)))"
  by (cases "votes c") (auto simp: accept_def)

lemma accept_error_iff:
  "(accept c pk pfx = Inl e) = (pk \<noteq> [] \<and> votes c = [] \<and> e = IndexError)"
  by (cases "votes c") (auto simp: accept_def)

lemma do_event_list_candidates_total:
  "pk = [] \<or> list_all (\<lambda>c. votes c \<noteq> []) cands \<Longrightarrow>
   do_event_list_candidates cands pk pfx
     = Inr (filter (\<lambda>c. startswith (code (proposal c)) pfx
              \<and> (pk = [] \<or> (case votes c of [] \<Rightarrow> False | v # _ \<Rightarrow> public_key v = pk)))
            cands)"
proof (induction cands)
  case Nil
  show ?case by simp
next
  case (Cons c cs)
  from Cons.prems have c: "pk = [] \<or> votes c \<noteq> []" by auto
  from Cons.prems have cs: "pk = [] \<or> list_all (\<lambda>c. votes c \<noteq> []) cs" by auto
  show ?case
    by (simp add: accept_total [OF c] Cons.IH [OF cs])
qed

lemma do_event_list_candidates_error:
  "pk \<noteq> [] \<Longrightarrow> c \<in> set cands \<Longrightarrow> votes c = []
     \<Longrightarrow> do_event_list_candidates cands pk pfx = Inl IndexError"
proof (induction cands)
  case Nil
  then show ?case by simp
next
  case (Cons d ds)
  show ?case
  proof (cases "votes d = []")
    case True
    with Cons.prems show ?thesis
      by (simp add: accept_filter_no_votes)
  next
    case False
    with Cons.prems have "c \<in> set ds" by auto
    with Cons have ih: "do_event_list_candidates ds pk pfx = Inl IndexError" by simp
    from False obtain v vs where "votes d = v # vs" by (cases "votes d") auto
    with Cons.prems ih show ?thesis
      by (simp add: accept_filter_votes)
  qed
qed

text \<open>
  Claim C8. Whenever the listing returns a list, the list holds exactly the candidates
  whose proposal code starts with the prefix and for which the public-key filter is
  empty or the first recorded vote has the filter key, in the order of the source
  collection (it is the source list filtered). The listing does return when the filter
  key is empty or every candidate has a vote.
\<close>

theorem listing_filter:
  "(do_event_list_candidates cands pk pfx = Inr r \<longrightarrow>
      r = filter (\<lambda>c. startswith (code (proposal c)) pfx
              \<and> (pk = [] \<or> (case votes c of [] \<Rightarrow> False | v # _ \<Rightarrow> public_key v = pk)))
            cands)
   \<and> (pk = [] \<or> list_all (\<lambda>c. votes c \<noteq> []) cands \<longrightarrow>
      do_event_list_candidates cands pk pfx
        = Inr (filter (\<lambda>c. startswith (code (proposal c)) pfx
              \<and> (pk = [] \<or> (case votes c of [] \<Rightarrow> False | v # _ \<Rightarrow> public_key v = pk)))
            cands))"
proof (cases "pk = [] \<or> list_all (\<lambda>c. votes c \<noteq> []) cands")
  case True
  from do_event_list_candidates_total [OF True, of pfx] show ?thesis by simp
next
  case False
  then have pk: "pk \<noteq> []" and "\<not> list_all (\<lambda>c. votes c \<noteq> []) cands" by simp_all
  then obtain c where "c \<in> set cands" "votes c = []"
    by (auto simp: list_all_iff)
  with pk have "do_event_list_candidates cands pk pfx = Inl IndexError"
    by (rule do_event_list_candidates_error)
  with False show ?thesis by simp
qed

text \<open>
  The theorem at the two candidates \<open>a.b\<close> (first vote by \<open>K1\<close>) and \<open>a.c\<close> (first
  vote by \<open>K2\<close>), with the prefix \<open>a.\<close> and the key \<open>K1\<close>.
\<close>

theorem listing_filter_witness:
  "do_event_list_candidates
     [\<lparr> proposal_id = ''p1'',
         proposal = \<lparr> code = ''a.b'', proposal_value = ''1'', nonce = ''n1'' \<rparr>,
         votes = [\<lparr> public_key = ''K1'', recorded_vote = ACCEPT \<rparr>] \<rparr>,
      \<lparr> proposal_id = ''p2'',
         proposal = \<lparr> code = ''a.c'', proposal_value = ''2'', nonce = ''n2'' \<rparr>,
         votes = [\<lparr> public_key = ''K2'', recorded_vote = ACCEPT \<rparr>] \<rparr>]
     ''K1'' ''a.''
   = Inr [\<lparr> proposal_id = ''p1'',
         proposal = \<lparr> code = ''a.b'', proposal_value = ''1'', nonce = ''n1'' \<rparr>,
         votes = [\<lparr> public_key = ''K1'', recorded_vote = ACCEPT \<rparr>] \<rparr>]"
proof -
  let ?cands = "[\<lparr> proposal_id = ''p1'',
         proposal = \<lparr> code = ''a.b'', proposal_value = ''1'', nonce = ''n1'' \<rparr>,
         votes = [\<lparr> public_key = ''K1'', recorded_vote = ACCEPT \<rparr>] \<rparr>,
      \<lparr> proposal_id = ''p2'',
         proposal = \<lparr> code = ''a.c'', proposal_value = ''2'', nonce = ''n2'' \<rparr>,
         votes = [\<lparr> public_key = ''K2'', recorded_vote = ACCEPT \<rparr>] \<rparr>]"
  have h: "''K1'' = [] \<or> list_all (\<lambda>c. votes c \<noteq> []) ?cands"
    by simp
  note t = listing_filter [of ?cands "''K1''" "''a.''" "[]"]
  from h t have "do_event_list_candidates ?cands ''K1'' ''a.''
      = Inr (filter (\<lambda>c. startswith (code (proposal c)) ''a.''
              \<and> (''K1'' = [] \<or> (case votes c of [] \<Rightarrow> False | v # _ \<Rightarrow> public_key v = ''K1'')))
            ?cands)"
    by blast
  then show ?thesis by (simp add: startswith_def)
qed

text \<open>
  Claim C10. With a non-empty public-key filter, \<^verbatim>\<open>_accept\<close> raises \<^verbatim>\<open>IndexError\<close>
  exactly on a candidate without votes, whatever the prefix; the listing raises
  \<^verbatim>\<open>IndexError\<close> exactly when some candidate of the source collection has no vote,
  and it returns a list when every candidate has one.
\<close>

theorem listing_index_error:
  assumes "pk \<noteq> []"
  shows "((accept c pk pfx = Inl IndexError) = (votes c = []))
   \<and> ((do_event_list_candidates cands pk pfx = Inl IndexError)
        = (\<exists>c\<in>set cands. votes c = []))
   \<and> ((\<forall>c\<in>set cands. votes c \<noteq> [])
        \<longrightarrow> (\<exists>r. do_event_list_candidates cands pk pfx = Inr r))"
proof -
  have 1: "(accept c pk pfx = Inl IndexError) = (votes c = [])"
    using assms by (simp add: accept_error_iff)
  have ok: "\<exists>r. do_event_list_candidates cands pk pfx = Inr r"
    if "\<forall>c\<in>set cands. votes c \<noteq> []"
  proof -
    from that have "pk = [] \<or> list_all (\<lambda>c. votes c \<noteq> []) cands"
      by (simp add: list_all_iff)
    from do_event_list_candidates_total [OF this] show ?thesis by blast
  qed
  have 2: "(do_event_list_candidates cands pk pfx = Inl IndexError)
        = (\<exists>c\<in>set cands. votes c = [])"
  proof
    assume e: "do_event_list_candidates cands pk pfx = Inl IndexError"
    show "\<exists>c\<in>set cands. votes c = []"
    proof (rule ccontr)
      assume "\<not> (\<exists>c\<in>set cands. votes c = [])"
      then have "\<forall>c\<in>set cands. votes c \<noteq> []" by blast
      from ok [OF this] e show False by auto
    qed
  next
    assume "\<exists>c\<in>set cands. votes c = []"
    then obtain c where "c \<in> set cands" "votes c = []" by blast
    with assms show "do_event_list_candidates cands pk pfx = Inl IndexError"
      by (rule do_event_list_candidates_error)
  qed
  from 1 2 ok show ?thesis by blast
qed

text \<open>
  The theorem at a collection whose second candidate has no vote and a code that the
  prefix would exclude: the listing raises.
\<close>

theorem listing_index_error_witness:
  "do_event_list_candidates
     [\<lparr> proposal_id = ''p1'',
         proposal = \<lparr> code = ''a.b'', proposal_value = ''1'', nonce = ''n1'' \<rparr>,
         votes = [\<lparr> public_key = ''K1'', recorded_vote = ACCEPT \<rparr>] \<rparr>,
      \<lparr> proposal_id = ''p0'',
         proposal = \<lparr> code = ''zz'', proposal_value = ''0'', nonce = ''n0'' \<rparr>,
         votes = [] \<rparr>]
     ''K1'' ''a.''
   = Inl IndexError
   \<and> \<not> startswith ''zz'' ''a.''"
proof -
  have "''K1'' \<noteq> []" by simp
  from listing_index_error [OF this, of
     "\<lparr> proposal_id = ''p0'',
         proposal = \<lparr> code = ''zz'', proposal_value = ''0'', nonce = ''n0'' \<rparr>,
         votes = [] \<rparr>" "''a.''"
     "[\<lparr> proposal_id = ''p1'',
         proposal = \<lparr> code = ''a.b'', proposal_value = ''1'', nonce = ''n1'' \<rparr>,
         votes = [\<lparr> public_key = ''K1'', recorded_vote = ACCEPT \<rparr>] \<rparr>,
      \<lparr> proposal_id = ''p0'',
         proposal = \<lparr> code = ''zz'', proposal_value = ''0'', nonce = ''n0'' \<rparr>,
         votes = [] \<rparr>]"]
  show ?thesis by (simp add: startswith_def)
qed

subsection \<open>The batch keeps the transactions in order\<close>

text \<open>
  Claim C9. For every signer and every list of transactions, the batch of
  \<^verbatim>\<open>_create_batch\<close> holds exactly the given transactions in the given order, and its
  header is the serialized batch header whose transaction ids are the header
  signatures of these transactions in the same order; the header is signed by the
  signer.
\<close>

theorem create_batch_order:
  "transactions (create_batch w sg txns) = txns
   \<and> batch_header_bytes (create_batch w sg txns)
       = ser_batch_header w
           \<lparr> signer_public_key = public_key_hex sg,
             transaction_ids = map header_signature txns \<rparr>
   \<and> batch_header_signature (create_batch w sg txns)
       = sign sg (batch_header_bytes (create_batch w sg txns))
   \<and> length (transactions (create_batch w sg txns)) = length (map header_signature txns)"
  by (simp add: create_batch_def Let_def)

subsection \<open>A second vote with the same key\<close>


lemma get_proposals_raises: "get_proposals get_leaf = Inl (NameError ''EventCandidates'')"
  by (simp add: get_proposals_def)

lemma do_event_reciprocate_raises:
  "do_event_reciprocate w sg get_leaf pid vote_value = Inl (NameError ''EventCandidates'')"
  by (simp add: do_event_reciprocate_def get_proposals_raises)



subsection \<open>The genesis batch\<close>









end
